theory Spec2Isabelle
  imports Main "HOL-Library.Finite_Map"
begin

section \<open>Errors\<close>

text \<open>
  Every \<^verbatim>\<open>raise\<close>, failed \<^verbatim>\<open>assert\<close> and failing library call of
  \<^verbatim>\<open>clrs/_src/baselines.py\<close> is a value of this type; a fallible function returns
  \<open>error + 'a\<close> with \<open>Inl\<close> for the exception.
\<close>

datatype error =
    ValueError
  | AttributeError
  | IndexError
  | KeyError
  | TypeError
  | AssertionError
  | NotImplementedError
  | FileNotFoundError
  | FileExistsError
  | IsADirectoryError

section \<open>Strings\<close>

text \<open>Python's \<^verbatim>\<open>s.startswith(p)\<close> and the substring test \<^verbatim>\<open>sub in s\<close>.\<close>

fun startswith :: "string \<Rightarrow> string \<Rightarrow> bool" where
  "startswith s [] = True"
| "startswith [] (p # ps) = False"
| "startswith (c # cs) (p # ps) = (c = p \<and> startswith cs ps)"

fun str_contains :: "string \<Rightarrow> string \<Rightarrow> bool" where
  "str_contains sub [] = (sub = [])"
| "str_contains sub (c # cs) = (startswith (c # cs) sub \<or> str_contains sub cs)"

section \<open>Parameters: Haiku's two-level mapping\<close>

text \<open>
  \<^verbatim>\<open>hk.Params\<close> is a mapping from module name to a bundle, itself a mapping from
  parameter name to an array. Dictionaries compare by content, so both levels are finite
  maps. The arrays are an arbitrary type \<open>'v\<close>; where the optimizer adds an update to a
  weight, \<open>'v\<close> has a \<open>+\<close>.
\<close>

type_synonym 'v Params = "(string, (string, 'v) fmap) fmap"

definition bundle_of :: "'v Params \<Rightarrow> string \<Rightarrow> (string, 'v) fmap" where
  "bundle_of s m = (case fmlookup s m of None \<Rightarrow> fmempty | Some b \<Rightarrow> b)"

text \<open>The parameter \<open>n\<close> of module \<open>m\<close>: \<^verbatim>\<open>s[m][n]\<close> when both keys are there.\<close>

definition plookup :: "'v Params \<Rightarrow> string \<Rightarrow> string \<Rightarrow> 'v option" where
  "plookup s m n = (case fmlookup s m of None \<Rightarrow> None | Some b \<Rightarrow> fmlookup b n)"

text \<open>
  \<^verbatim>\<open>hk.data_structures.filter\<close> and \<^verbatim>\<open>merge\<close> walk their arguments with
  \<^verbatim>\<open>traverse\<close>, which yields one triple (module name, name, value) per parameter, and
  store each triple with \<^verbatim>\<open>out[module_name][name] = value\<close> in a
  \<^verbatim>\<open>defaultdict(dict)\<close>. A module appears in the result only if a triple was stored
  for it: a module whose bundle is or becomes empty is dropped.
\<close>

definition nonempty_modules :: "'v Params \<Rightarrow> 'v Params" where
  "nonempty_modules s = fmfilter (\<lambda>m. fmdom (bundle_of s m) \<noteq> {||}) s"

definition hk_filter :: "(string \<Rightarrow> string \<Rightarrow> 'v \<Rightarrow> bool) \<Rightarrow> 'v Params \<Rightarrow> 'v Params" where
  "hk_filter predicate s =
     nonempty_modules
       (fmmap_keys
          (\<lambda>m b. fmfilter (\<lambda>n. case fmlookup b n of None \<Rightarrow> False
                                  | Some v \<Rightarrow> predicate m n v) b) s)"

text \<open>\<^verbatim>\<open>merge(a, b)\<close>: the triples of \<open>a\<close>, then those of \<open>b\<close>, which take precedence.\<close>

definition hk_merge :: "'v Params \<Rightarrow> 'v Params \<Rightarrow> 'v Params" where
  "hk_merge a b =
     nonempty_modules
       (fmmap_keys (\<lambda>m ba. ba ++\<^sub>f bundle_of b m) a ++\<^sub>f
        fmmap_keys (\<lambda>m bb. bundle_of a m ++\<^sub>f bb) b)"

text \<open>
  \<^verbatim>\<open>optax.apply_updates(params, updates)\<close> is a \<^verbatim>\<open>tree_map\<close> of
  \<^verbatim>\<open>p + u\<close> over two trees, which raises unless both have the same keys at both
  levels.
\<close>

definition same_structure :: "'v Params \<Rightarrow> 'v Params \<Rightarrow> bool" where
  "same_structure p u =
     (fmdom p = fmdom u \<and> fmpred (\<lambda>m b. fmdom b = fmdom (bundle_of u m)) p)"

definition tree_add :: "('v::plus) Params \<Rightarrow> 'v Params \<Rightarrow> 'v Params" where
  "tree_add p u =
     fmmap_keys
       (\<lambda>m b. fmmap_keys
          (\<lambda>n v. case fmlookup (bundle_of u m) n of None \<Rightarrow> v | Some d \<Rightarrow> v + d) b) p"

definition apply_updates :: "('v::plus) Params \<Rightarrow> 'v Params \<Rightarrow> error + 'v Params" where
  "apply_updates p u = (if same_structure p u then Inr (tree_add p u) else Inl ValueError)"

section \<open>The processor partition\<close>

text \<open>
  \<^verbatim>\<open>_filter_processor\<close> keeps the parameters whose module name contains
  \<^verbatim>\<open>'construct_processor'\<close>.
\<close>

definition is_processor :: "string \<Rightarrow> bool" where
  "is_processor module_name = str_contains ''construct_processor'' module_name"

definition filter_processor :: "'v Params \<Rightarrow> 'v Params" where
  "filter_processor params_in = hk_filter (\<lambda>module_name n v. is_processor module_name) params_in"

section \<open>Trajectories\<close>

text \<open>
  \<^verbatim>\<open>specs.Location\<close>, \<^verbatim>\<open>probing.DataPoint\<close> and the named tuples
  \<^verbatim>\<open>samplers.Features\<close>, \<^verbatim>\<open>FeaturesChunked\<close> and \<^verbatim>\<open>Feedback\<close> are declared
  outside this file; the records hold the attributes that \<^verbatim>\<open>baselines.py\<close> reads.
  An array is its \<^verbatim>\<open>shape\<close> and its contents, which stay abstract. One record serves
  both kinds of features: the full ones carry \<^verbatim>\<open>lengths\<close>, the chunked ones
  \<^verbatim>\<open>is_first\<close> and \<^verbatim>\<open>is_last\<close>.
\<close>

datatype Location = NODE | EDGE | GRAPH

record 'a ndarray =
  shape :: "nat list"
  elems :: 'a

record 'a DataPoint =
  name :: string
  location :: Location
  type_ :: string
  data :: "'a ndarray"

record 'a Features =
  inputs :: "'a DataPoint list"
  hints :: "'a DataPoint list"
  lengths :: 'a
  is_first :: 'a
  is_last :: 'a

record 'a Feedback =
  features :: "'a Features"
  outputs :: "'a DataPoint list"

text \<open>
  Python's \<^verbatim>\<open>t[i]\<close> on a tuple: a negative index counts from the end, and an index
  outside the tuple raises \<^verbatim>\<open>IndexError\<close>.
\<close>

definition tuple_index :: "'b list \<Rightarrow> int \<Rightarrow> error + 'b" where
  "tuple_index xs i =
     (if 0 \<le> i \<and> nat i < length xs then Inr (xs ! nat i)
      else if i < 0 \<and> nat (- i) \<le> length xs then Inr (xs ! (length xs - nat (- i)))
      else Inl IndexError)"

section \<open>Node-count inference\<close>

text \<open>
  \<^verbatim>\<open>_nb_nodes\<close>: the loop over \<^verbatim>\<open>feedback.features.inputs\<close> returns at the first
  input located at a node or an edge; \<^verbatim>\<open>assert False\<close> follows the loop.
\<close>

definition node_or_edge :: "'a DataPoint \<Rightarrow> bool" where
  "node_or_edge inp = (location inp = NODE \<or> location inp = EDGE)"

fun nb_nodes_loop :: "'a DataPoint list \<Rightarrow> bool \<Rightarrow> error + nat" where
  "nb_nodes_loop [] is_chunked = Inl AssertionError"
| "nb_nodes_loop (inp # rest) is_chunked =
     (if node_or_edge inp then
        (if is_chunked then tuple_index (shape (data inp)) 2
         else tuple_index (shape (data inp)) 1)
      else nb_nodes_loop rest is_chunked)"

definition nb_nodes :: "'a Feedback \<Rightarrow> bool \<Rightarrow> error + nat" where
  "nb_nodes feedback is_chunked = nb_nodes_loop (inputs (features feedback)) is_chunked"

section \<open>The model object and its construction\<close>

text \<open>
  What \<^verbatim>\<open>_create_net_fns\<close> captures in the closure \<^verbatim>\<open>_use_net\<close>: the class of the
  network (\<^verbatim>\<open>nets.Net\<close> or \<^verbatim>\<open>nets.NetChunked\<close>) and its hyperparameters.
\<close>

record 'r net_fns =
  chunked_net :: bool
  net_hidden_dim :: nat
  net_encode_hints :: bool
  net_kind :: string
  net_use_lstm :: bool
  net_dropout_prob :: 'r
  net_nb_heads :: nat

text \<open>
  The attributes of a \<^verbatim>\<open>BaselineModel\<close>. \<open>model_name\<close> is \<^verbatim>\<open>self.name\<close>,
  \<open>learning_rate\<close> stands for \<^verbatim>\<open>self.opt = optax.adam(learning_rate)\<close>; \<open>None\<close> in
  \<open>params\<close> and \<open>opt_state\<close> is Python's \<^verbatim>\<open>None\<close>, and in \<open>mp_state\<close> the
  attribute that only \<^verbatim>\<open>BaselineModelChunked.init\<close> sets.
\<close>

record ('s, 'r, 'v, 'os, 'mp) BaselineModel =
  spec :: 's
  decode_hints :: bool
  decode_diffs :: bool
  checkpoint_path :: string
  model_name :: string
  freeze_processor :: bool
  learning_rate :: 'r
  nb_dims :: "(string, nat) fmap"
  net_fn :: "'r net_fns"
  params :: "'v Params option"
  opt_state :: "'os option"
  mp_state :: "'mp option"

text \<open>The three loops that fill \<^verbatim>\<open>self.nb_dims\<close> with \<^verbatim>\<open>data.shape[-1]\<close>.\<close>

fun fill_nb_dims ::
  "(string, nat) fmap \<Rightarrow> 'a DataPoint list \<Rightarrow> error + (string, nat) fmap" where
  "fill_nb_dims dims [] = Inr dims"
| "fill_nb_dims dims (x # xs) =
     (case tuple_index (shape (data x)) (- 1) of
        Inl e \<Rightarrow> Inl e
      | Inr n \<Rightarrow> fill_nb_dims (fmupd (name x) n dims) xs)"

text \<open>
  \<^verbatim>\<open>BaselineModel.__init__\<close>, which \<^verbatim>\<open>BaselineModelChunked\<close> inherits; the first
  argument tells which class is constructed, that is which \<^verbatim>\<open>_create_net_fns\<close> runs.
  The dummy trajectory is \<open>None\<close> when the caller leaves the default. The constructor of
  the base class \<^verbatim>\<open>model.Model\<close>, \<^verbatim>\<open>optax.adam\<close>, \<^verbatim>\<open>hk.transform\<close> and
  \<^verbatim>\<open>jax.jit\<close> are declared outside this file and only build objects: they are taken
  to return normally.
\<close>

definition BaselineModel_init ::
  "bool \<Rightarrow> 's \<Rightarrow> nat \<Rightarrow> nat \<Rightarrow> string \<Rightarrow> bool \<Rightarrow> bool \<Rightarrow> bool \<Rightarrow> bool \<Rightarrow> 'r \<Rightarrow> string \<Rightarrow> bool \<Rightarrow>
   'a Feedback option \<Rightarrow> 'r \<Rightarrow> string \<Rightarrow> error + ('s, 'r, 'v, 'os, 'mp) BaselineModel" where
  "BaselineModel_init is_chunked_class spec_arg nb_heads hidden_dim kind encode_hints
     decode_hints_arg decode_diffs_arg use_lstm learning_rate_arg checkpoint_path_arg
     freeze_processor_arg dummy_trajectory dropout_prob name_arg =
     (if encode_hints \<and> \<not> decode_hints_arg then Inl ValueError
      else case dummy_trajectory of
        None \<Rightarrow> Inl AttributeError
      | Some dummy \<Rightarrow>
          (case fill_nb_dims fmempty (inputs (features dummy)) of
             Inl e \<Rightarrow> Inl e
           | Inr dims1 \<Rightarrow>
               (case fill_nb_dims dims1 (hints (features dummy)) of
                  Inl e \<Rightarrow> Inl e
                | Inr dims2 \<Rightarrow>
                    (case fill_nb_dims dims2 (outputs dummy) of
                       Inl e \<Rightarrow> Inl e
                     | Inr dims3 \<Rightarrow>
                         Inr \<lparr> spec = spec_arg,
                               decode_hints = decode_hints_arg,
                               decode_diffs = decode_diffs_arg,
                               checkpoint_path = checkpoint_path_arg,
                               model_name = name_arg,
                               freeze_processor = freeze_processor_arg,
                               learning_rate = learning_rate_arg,
                               nb_dims = dims3,
                               net_fn = \<lparr> chunked_net = is_chunked_class,
                                          net_hidden_dim = hidden_dim,
                                          net_encode_hints = encode_hints,
                                          net_kind = kind,
                                          net_use_lstm = use_lstm,
                                          net_dropout_prob = dropout_prob,
                                          net_nb_heads = nb_heads \<rparr>,
                               params = None,
                               opt_state = None,
                               mp_state = None \<rparr>))))"

section \<open>The optimizer step\<close>

text \<open>
  \<^verbatim>\<open>BaselineModel._update_params\<close>. \<open>opt_update\<close> is \<^verbatim>\<open>self.opt.update\<close> (Adam),
  which turns gradients and an optimizer state into updates and a new optimizer state.
\<close>

definition update_params ::
  "('v Params \<Rightarrow> 'os \<Rightarrow> 'v Params \<times> 'os) \<Rightarrow> ('s, 'r, 'v::plus, 'os, 'mp) BaselineModel \<Rightarrow>
   'v Params \<Rightarrow> 'v Params \<Rightarrow> 'os \<Rightarrow> error + ('v Params \<times> 'os)" where
  "update_params opt_update self params_in grads opt_state_in =
     (case opt_update grads opt_state_in of
        (updates, opt_state') \<Rightarrow>
          if freeze_processor self then
            (case apply_updates (filter_processor params_in) (filter_processor updates) of
               Inl e \<Rightarrow> Inl e
             | Inr new_params \<Rightarrow> Inr (hk_merge params_in new_params, opt_state'))
          else
            (case apply_updates params_in updates of
               Inl e \<Rightarrow> Inl e
             | Inr new_params \<Rightarrow> Inr (new_params, opt_state')))"

section \<open>The loss and the update of the full-trajectory model\<close>

text \<open>
  The functions of \<^verbatim>\<open>clrs._src.losses\<close> that \<^verbatim>\<open>update\<close> calls, with the keyword
  arguments in the order of the source. They are declared outside this file and stay
  arbitrary, as does the type \<open>'l\<close> of a loss value.
\<close>

record ('a, 'l) losses =
  output_loss :: "'a DataPoint \<Rightarrow> 'a \<Rightarrow> nat \<Rightarrow> 'l"
  diff_loss :: "'a \<Rightarrow> 'a \<Rightarrow> 'a \<Rightarrow> 'l"
  hint_loss :: "'a DataPoint \<Rightarrow> 'a list \<Rightarrow> 'a \<Rightarrow> 'a \<Rightarrow> nat \<Rightarrow> bool \<Rightarrow> 'l"
  output_loss_chunked :: "'a DataPoint \<Rightarrow> 'a \<Rightarrow> 'a \<Rightarrow> nat \<Rightarrow> 'l"
  diff_loss_chunked :: "'a \<Rightarrow> 'a \<Rightarrow> 'a \<Rightarrow> 'l"
  hint_loss_chunked :: "'a DataPoint \<Rightarrow> 'a \<Rightarrow> 'a \<Rightarrow> 'a \<Rightarrow> nat \<Rightarrow> bool \<Rightarrow> 'l"

text \<open>
  A loop \<^verbatim>\<open>for truth in ...: total_loss += f(truth, preds[truth.name])\<close>; a name that
  the predictions lack raises \<^verbatim>\<open>KeyError\<close>.
\<close>

fun accumulate_losses ::
  "('a DataPoint \<Rightarrow> 'a \<Rightarrow> 'l::plus) \<Rightarrow> (string, 'a) fmap \<Rightarrow> 'l \<Rightarrow> 'a DataPoint list \<Rightarrow> error + 'l" where
  "accumulate_losses f preds total_loss [] = Inr total_loss"
| "accumulate_losses f preds total_loss (truth # rest) =
     (case fmlookup preds (name truth) of
        None \<Rightarrow> Inl KeyError
      | Some pred \<Rightarrow> accumulate_losses f preds (total_loss + f truth pred) rest)"

text \<open>The comprehension \<^verbatim>\<open>[x[truth.name] for x in hint_preds]\<close>.\<close>

fun lookup_each :: "string \<Rightarrow> (string, 'a) fmap list \<Rightarrow> error + 'a list" where
  "lookup_each k [] = Inr []"
| "lookup_each k (x # xs) =
     (case fmlookup x k of
        None \<Rightarrow> Inl KeyError
      | Some v \<Rightarrow> (case lookup_each k xs of Inl e \<Rightarrow> Inl e | Inr vs \<Rightarrow> Inr (v # vs)))"

fun accumulate_hint_losses ::
  "('a DataPoint \<Rightarrow> 'a list \<Rightarrow> 'l::plus) \<Rightarrow> (string, 'a) fmap list \<Rightarrow> 'l \<Rightarrow> 'a DataPoint list \<Rightarrow>
   error + 'l" where
  "accumulate_hint_losses f hint_preds total_loss [] = Inr total_loss"
| "accumulate_hint_losses f hint_preds total_loss (truth # rest) =
     (case lookup_each (name truth) hint_preds of
        Inl e \<Rightarrow> Inl e
      | Inr preds \<Rightarrow> accumulate_hint_losses f hint_preds (total_loss + f truth preds) rest)"

text \<open>
  The inner function \<^verbatim>\<open>loss\<close> of \<^verbatim>\<open>BaselineModel.update\<close>. \<open>net_fn_apply\<close> is the
  jitted \<^verbatim>\<open>self.net_fn.apply\<close>: it returns the output predictions (by name), the hint
  predictions (one mapping per step), the diff logits and the ground-truth diffs, or
  raises.
\<close>

definition loss ::
  "('v Params \<Rightarrow> 'k \<Rightarrow> 'a Features \<Rightarrow> bool \<Rightarrow>
      error + ((string, 'a) fmap \<times> (string, 'a) fmap list \<times> 'a \<times> 'a)) \<Rightarrow>
   ('a, 'l::{zero,plus}) losses \<Rightarrow> ('s, 'r, 'v, 'os, 'mp) BaselineModel \<Rightarrow>
   'v Params \<Rightarrow> 'k \<Rightarrow> 'a Feedback \<Rightarrow> error + 'l" where
  "loss net_fn_apply L self params_in rng_key feedback =
     (case net_fn_apply params_in rng_key (features feedback) False of
        Inl e \<Rightarrow> Inl e
      | Inr (output_preds, hint_preds, diff_logits, gt_diffs) \<Rightarrow>
          (case nb_nodes feedback False of
             Inl e \<Rightarrow> Inl e
           | Inr n \<Rightarrow>
               (case accumulate_losses (\<lambda>truth pred. output_loss L truth pred n)
                       output_preds 0 (outputs feedback) of
                  Inl e \<Rightarrow> Inl e
                | Inr total1 \<Rightarrow>
                    (let total2 =
                       (if decode_diffs self
                        then total1 + diff_loss L diff_logits gt_diffs (lengths (features feedback))
                        else total1)
                     in if decode_hints self
                        then accumulate_hint_losses
                               (\<lambda>truth preds. hint_loss L truth preds gt_diffs
                                   (lengths (features feedback)) n (decode_diffs self))
                               hint_preds total2 (hints (features feedback))
                        else Inr total2))))"

text \<open>
  \<^verbatim>\<open>jax.value_and_grad(f)(p)\<close> runs \<open>f\<close> at \<open>p\<close>, so it raises what \<open>f\<close> raises there,
  and returns the value with the gradient; \<open>grad_of\<close> is the differentiation itself. With
  \<^verbatim>\<open>has_aux=True\<close> the function returns a pair and only its first component is
  differentiated.
\<close>

definition value_and_grad ::
  "(('p \<Rightarrow> error + 'l) \<Rightarrow> 'p \<Rightarrow> 'p) \<Rightarrow> ('p \<Rightarrow> error + 'l) \<Rightarrow> 'p \<Rightarrow> error + ('l \<times> 'p)" where
  "value_and_grad grad_of f p =
     (case f p of Inl e \<Rightarrow> Inl e | Inr v \<Rightarrow> Inr (v, grad_of f p))"


text \<open>\<^verbatim>\<open>BaselineModel.update\<close>.\<close>

definition update ::
  "('v Params \<Rightarrow> 'k \<Rightarrow> 'a Features \<Rightarrow> bool \<Rightarrow>
      error + ((string, 'a) fmap \<times> (string, 'a) fmap list \<times> 'a \<times> 'a)) \<Rightarrow>
   ('a, 'l::{zero,plus}) losses \<Rightarrow>
   (('v Params \<Rightarrow> error + 'l) \<Rightarrow> 'v Params \<Rightarrow> 'v Params) \<Rightarrow>
   ('v Params \<Rightarrow> 'os \<Rightarrow> 'v Params \<times> 'os) \<Rightarrow>
   ('s, 'r, 'v::plus, 'os, 'mp) BaselineModel \<Rightarrow>
   'k \<Rightarrow> 'v Params \<Rightarrow> 'os \<Rightarrow> 'a Feedback \<Rightarrow> error + ('v Params \<times> 'os \<times> 'l)" where
  "update net_fn_apply L grad_of opt_update self rng_key params_in opt_state_in feedback =
     (case value_and_grad grad_of (\<lambda>p. loss net_fn_apply L self p rng_key feedback) params_in of
        Inl e \<Rightarrow> Inl e
      | Inr (lss, grads) \<Rightarrow>
          (case update_params opt_update self params_in grads opt_state_in of
             Inl e \<Rightarrow> Inl e
           | Inr (new_params, opt_state') \<Rightarrow> Inr (new_params, opt_state', lss)))"

section \<open>The chunked model\<close>




text \<open>
  \<^verbatim>\<open>BaselineModelChunked.predict\<close> and \<^verbatim>\<open>verbose_loss\<close> have one statement,
  \<^verbatim>\<open>raise NotImplementedError\<close>.
\<close>

definition predict_chunked ::
  "('s, 'r, 'v, 'os, 'mp) BaselineModel \<Rightarrow> 'k \<Rightarrow> 'a Features \<Rightarrow> error + 'res" where
  "predict_chunked self rng_key feats = Inl NotImplementedError"

definition verbose_loss_chunked ::
  "('s, 'r, 'v, 'os, 'mp) BaselineModel \<Rightarrow> 'args \<Rightarrow> 'kwargs \<Rightarrow> error + 'res" where
  "verbose_loss_chunked self args kwargs = Inl NotImplementedError"

section \<open>The checkpoint store\<close>

text \<open>
  \<^verbatim>\<open>os.path.join(a, b)\<close> on POSIX: an absolute second component replaces the first,
  and a separator is inserted unless the first is empty or ends with one.
\<close>

definition endswith_sep :: "string \<Rightarrow> bool" where
  "endswith_sep p = (p \<noteq> [] \<and> last p = CHR ''/'')"

definition path_join :: "string \<Rightarrow> string \<Rightarrow> string" where
  "path_join a b =
     (if startswith b ''/'' then b
      else if a = [] \<or> endswith_sep a then a @ b
      else a @ ''/'' @ b)"

text \<open>A directory path without its trailing separators, unless it has nothing else.\<close>

definition all_sep :: "string \<Rightarrow> bool" where
  "all_sep p = list_all (\<lambda>c. c = CHR ''/'') p"

definition rstrip_sep :: "string \<Rightarrow> string" where
  "rstrip_sep p = rev (dropWhile (\<lambda>c. c = CHR ''/'') (rev p))"

text \<open>
  What \<^verbatim>\<open>save_model\<close> pickles: the dictionary with the keys \<^verbatim>\<open>'params'\<close> and
  \<^verbatim>\<open>'opt_state'\<close>. \<^verbatim>\<open>pickle.load\<close> returns what \<^verbatim>\<open>pickle.dump\<close> was given, so
  a file holds the dictionary itself.
\<close>

record ('v, 'os) checkpoint =
  ck_params :: "'v Params option"
  ck_opt_state :: "'os option"

text \<open>
  The file system: the directories and the checkpoint files that these functions have
  created or that were there, by path. Paths are recorded as written, up to the trailing
  separators of a directory.
\<close>

record ('v, 'os) file_system =
  dirs :: "string set"
  files :: "(string, ('v, 'os) checkpoint) fmap"

definition dir_key :: "string \<Rightarrow> string" where
  "dir_key p = (if all_sep p then p else rstrip_sep p)"

definition is_dir :: "('v, 'os) file_system \<Rightarrow> string \<Rightarrow> bool" where
  "is_dir fs p = (p \<noteq> [] \<and> dir_key p \<in> dirs fs)"





text \<open>\<^verbatim>\<open>open(path, 'rb')\<close> followed by \<^verbatim>\<open>pickle.load\<close>.\<close>

definition open_rb :: "('v, 'os) file_system \<Rightarrow> string \<Rightarrow> error + ('v, 'os) checkpoint" where
  "open_rb fs path =
     (case fmlookup (files fs) path of
        Some restored_state \<Rightarrow> Inr restored_state
      | None \<Rightarrow> if is_dir fs path then Inl IsADirectoryError else Inl FileNotFoundError)"


text \<open>
  \<^verbatim>\<open>BaselineModel.restore_model\<close>. \<^verbatim>\<open>hk.data_structures.filter\<close> and
  \<^verbatim>\<open>merge\<close> iterate over their arguments, so \<^verbatim>\<open>None\<close> in place of a mapping
  raises \<^verbatim>\<open>TypeError\<close>; the attributes of the model are assigned after the merge.
\<close>

definition restore_model ::
  "('v, 'os) file_system \<Rightarrow> ('s, 'r, 'v, 'os, 'mp) BaselineModel \<Rightarrow> string \<Rightarrow> bool \<Rightarrow>
   error + ('s, 'r, 'v, 'os, 'mp) BaselineModel" where
  "restore_model fs self file_name only_load_processor =
     (case open_rb fs (path_join (checkpoint_path self) file_name) of
        Inl e \<Rightarrow> Inl e
      | Inr restored_state \<Rightarrow>
          (case ck_params restored_state of
             None \<Rightarrow> Inl TypeError
           | Some saved \<Rightarrow>
               (let restored_params =
                  (if only_load_processor then filter_processor saved else saved)
                in case params self of
                     None \<Rightarrow> Inl TypeError
                   | Some held \<Rightarrow>
                       Inr (self\<lparr> params := Some (hk_merge held restored_params),
                                  opt_state := ck_opt_state restored_state \<rparr>))))"

section \<open>Notions used to state the properties\<close>

text \<open>
  The position of the nodes axis in an input array: 1 for full trajectories (batch, then
  nodes), 2 for chunked ones (time, batch, then nodes).
\<close>

definition nodes_axis :: "bool \<Rightarrow> nat" where
  "nodes_axis is_chunked = (if is_chunked then 2 else 1)"


text \<open>
  The terms of the loss, in the order in which \<^verbatim>\<open>loss\<close> adds them to
  \<^verbatim>\<open>total_loss = 0.0\<close>: one output loss per output of the feedback, against the
  prediction of the same name; the diff loss if \<^verbatim>\<open>decode_diffs\<close> is set; one hint
  loss per hint, against the predictions of that name at every step, if
  \<^verbatim>\<open>decode_hints\<close> is set.
\<close>

definition output_loss_terms ::
  "('a, 'l) losses \<Rightarrow> (string, 'a) fmap \<Rightarrow> nat \<Rightarrow> 'a Feedback \<Rightarrow> 'l list" where
  "output_loss_terms L output_preds n feedback =
     map (\<lambda>truth. output_loss L truth (the (fmlookup output_preds (name truth))) n)
         (outputs feedback)"

definition hint_loss_terms ::
  "('a, 'l) losses \<Rightarrow> bool \<Rightarrow> (string, 'a) fmap list \<Rightarrow> 'a \<Rightarrow> nat \<Rightarrow> 'a Feedback \<Rightarrow> 'l list" where
  "hint_loss_terms L with_diffs hint_preds gt_diffs n feedback =
     map (\<lambda>truth. hint_loss L truth
                     (map (\<lambda>x. the (fmlookup x (name truth))) hint_preds)
                     gt_diffs (lengths (features feedback)) n with_diffs)
         (hints (features feedback))"

definition enabled_loss_terms ::
  "('a, 'l) losses \<Rightarrow> ('s, 'r, 'v, 'os, 'mp) BaselineModel \<Rightarrow> (string, 'a) fmap \<Rightarrow>
   (string, 'a) fmap list \<Rightarrow> 'a \<Rightarrow> 'a \<Rightarrow> nat \<Rightarrow> 'a Feedback \<Rightarrow> 'l list" where
  "enabled_loss_terms L self output_preds hint_preds diff_logits gt_diffs n feedback =
     output_loss_terms L output_preds n feedback @
     (if decode_diffs self
      then [diff_loss L diff_logits gt_diffs (lengths (features feedback))] else []) @
     (if decode_hints self
      then hint_loss_terms L (decode_diffs self) hint_preds gt_diffs n feedback else [])"

section \<open>Example values\<close>

text \<open>
  A model with one processor module and one encoder module, a trajectory with a graph, a
  node and an edge input, a network and losses that return fixed values, and a file
  system before and after a checkpoint is saved. The properties below are evaluated on
  them.
\<close>

definition ex_params :: "int Params" where
  "ex_params = fmap_of_list
     [(''net/construct_processor/linear'', fmap_of_list [(''w'', 1)]),
      (''net/enc_linear'', fmap_of_list [(''w'', 10)])]"

definition ex_grads :: "int Params" where
  "ex_grads = fmap_of_list
     [(''net/construct_processor/linear'', fmap_of_list [(''w'', 5)]),
      (''net/enc_linear'', fmap_of_list [(''w'', 7)])]"

definition ex_saved_params :: "int Params" where
  "ex_saved_params = fmap_of_list
     [(''net/construct_processor/linear'', fmap_of_list [(''w'', 2)]),
      (''net/enc_linear'', fmap_of_list [(''w'', 20)])]"

definition ex_n_edges :: "nat DataPoint" where
  "ex_n_edges = \<lparr> name = ''n_edges'', location = GRAPH, type_ = ''scalar'',
                  data = \<lparr> shape = [4], elems = 0 \<rparr> \<rparr>"

definition ex_pos :: "nat DataPoint" where
  "ex_pos = \<lparr> name = ''pos'', location = NODE, type_ = ''scalar'',
              data = \<lparr> shape = [4, 7], elems = 0 \<rparr> \<rparr>"

definition ex_adj :: "nat DataPoint" where
  "ex_adj = \<lparr> name = ''adj'', location = EDGE, type_ = ''mask'',
              data = \<lparr> shape = [4, 9, 9], elems = 0 \<rparr> \<rparr>"

definition ex_hint :: "nat DataPoint" where
  "ex_hint = \<lparr> name = ''pred_h'', location = NODE, type_ = ''pointer'',
               data = \<lparr> shape = [3, 4, 7], elems = 0 \<rparr> \<rparr>"

definition ex_output :: "nat DataPoint" where
  "ex_output = \<lparr> name = ''pred'', location = NODE, type_ = ''pointer'',
                 data = \<lparr> shape = [4, 7], elems = 0 \<rparr> \<rparr>"

definition ex_feedback :: "nat Feedback" where
  "ex_feedback =
     \<lparr> features = \<lparr> inputs = [ex_n_edges, ex_pos, ex_adj], hints = [ex_hint],
                      lengths = 0, is_first = 0, is_last = 0 \<rparr>,
       outputs = [ex_output] \<rparr>"

definition ex_feedback_reordered :: "nat Feedback" where
  "ex_feedback_reordered =
     \<lparr> features = \<lparr> inputs = [ex_pos, ex_adj, ex_n_edges], hints = [ex_hint],
                      lengths = 0, is_first = 0, is_last = 0 \<rparr>,
       outputs = [ex_output] \<rparr>"

definition ex_feedback_graph_only :: "nat Feedback" where
  "ex_feedback_graph_only =
     \<lparr> features = \<lparr> inputs = [ex_n_edges], hints = [ex_hint],
                      lengths = 0, is_first = 0, is_last = 0 \<rparr>,
       outputs = [ex_output] \<rparr>"

definition ex_fresh_model :: "(unit, nat, int, nat, nat) BaselineModel" where
  "ex_fresh_model =
     \<lparr> spec = (), decode_hints = True, decode_diffs = True,
       checkpoint_path = ''/tmp/clrs3'', model_name = ''base_model'',
       freeze_processor = True, learning_rate = 5,
       nb_dims = fmap_of_list [(''n_edges'', 4), (''pos'', 7), (''adj'', 9), (''pred_h'', 7),
                               (''pred'', 7)],
       net_fn = \<lparr> chunked_net = False, net_hidden_dim = 32, net_encode_hints = False,
                  net_kind = ''mpnn'', net_use_lstm = False, net_dropout_prob = 0,
                  net_nb_heads = 1 \<rparr>,
       params = None, opt_state = None, mp_state = None \<rparr>"

definition ex_model :: "(unit, nat, int, nat, nat) BaselineModel" where
  "ex_model = ex_fresh_model\<lparr> params := Some ex_params, opt_state := Some 0 \<rparr>"





definition ex_fs1 :: "(int, nat) file_system" where
  "ex_fs1 =
     \<lparr> dirs = {''/tmp/clrs3''},
       files = fmap_of_list
         [(''/tmp/clrs3/best.pkl'',
           \<lparr> ck_params = Some ex_saved_params, ck_opt_state = Some 3 \<rparr>)] \<rparr>"

definition ex_net ::
  "int Params \<Rightarrow> nat \<Rightarrow> nat Features \<Rightarrow> bool \<Rightarrow>
   error + ((string, nat) fmap \<times> (string, nat) fmap list \<times> nat \<times> nat)" where
  "ex_net p k f repred =
     Inr (fmap_of_list [(''pred'', 1)],
          [fmap_of_list [(''pred_h'', 1)], fmap_of_list [(''pred_h'', 2)]], 0, 0)"


definition ex_losses :: "(nat, int) losses" where
  "ex_losses =
     \<lparr> output_loss = (\<lambda>truth pred n. int n),
       diff_loss = (\<lambda>diff_logits gt_diffs lens. 3),
       hint_loss = (\<lambda>truth preds gt_diffs lens n with_diffs. int (length preds)),
       output_loss_chunked = (\<lambda>truth pred last n. int n),
       diff_loss_chunked = (\<lambda>diff_logits gt_diffs first. 3),
       hint_loss_chunked = (\<lambda>truth pred gt_diffs first n with_diffs. 11) \<rparr>"

definition ex_pos_chunked :: "nat DataPoint" where
  "ex_pos_chunked = \<lparr> name = ''pos'', location = NODE, type_ = ''scalar'',
                      data = \<lparr> shape = [5, 4, 7], elems = 0 \<rparr> \<rparr>"

definition ex_feedback_chunked :: "nat Feedback" where
  "ex_feedback_chunked =
     \<lparr> features = \<lparr> inputs = [ex_n_edges, ex_pos_chunked], hints = [ex_hint],
                      lengths = 0, is_first = 0, is_last = 0 \<rparr>,
       outputs = [ex_output] \<rparr>"

text \<open>
  Loss values with an addition that is not associative, as the addition of floating-point
  numbers: a sum of two values other than 0 is rounded to the nearest multiple of 10.
\<close>

datatype rounded = F int

instantiation rounded :: "{zero, plus}"
begin

definition zero_rounded :: rounded where
  "zero_rounded = F 0"

fun plus_rounded :: "rounded \<Rightarrow> rounded \<Rightarrow> rounded" where
  "plus_rounded (F a) (F b) =
     (if a = 0 then F b else if b = 0 then F a else F (((a + b + 5) div 10) * 10))"

instance ..

end

definition ex_hint2 :: "nat DataPoint" where
  "ex_hint2 = \<lparr> name = ''key_h'', location = NODE, type_ = ''scalar'',
                data = \<lparr> shape = [3, 4, 7], elems = 0 \<rparr> \<rparr>"

definition ex_output2 :: "nat DataPoint" where
  "ex_output2 = \<lparr> name = ''key'', location = NODE, type_ = ''scalar'',
                  data = \<lparr> shape = [4, 7], elems = 0 \<rparr> \<rparr>"

definition ex_feedback2 :: "nat Feedback" where
  "ex_feedback2 =
     \<lparr> features = \<lparr> inputs = [ex_n_edges, ex_pos, ex_adj], hints = [ex_hint, ex_hint2],
                      lengths = 0, is_first = 0, is_last = 0 \<rparr>,
       outputs = [ex_output, ex_output2] \<rparr>"

definition ex_net2 ::
  "int Params \<Rightarrow> nat \<Rightarrow> nat Features \<Rightarrow> bool \<Rightarrow>
   error + ((string, nat) fmap \<times> (string, nat) fmap list \<times> nat \<times> nat)" where
  "ex_net2 p k f repred =
     Inr (fmap_of_list [(''pred'', 1), (''key'', 2)],
          [fmap_of_list [(''pred_h'', 1), (''key_h'', 2)]], 0, 0)"

definition ex_losses_rounded :: "(nat, rounded) losses" where
  "ex_losses_rounded =
     \<lparr> output_loss = (\<lambda>truth pred n. F 9),
       diff_loss = (\<lambda>diff_logits gt_diffs lens. F 3),
       hint_loss = (\<lambda>truth preds gt_diffs lens n with_diffs. F 3),
       output_loss_chunked = (\<lambda>truth pred last n. F 9),
       diff_loss_chunked = (\<lambda>diff_logits gt_diffs first. F 3),
       hint_loss_chunked = (\<lambda>truth pred gt_diffs first n with_diffs. F 3) \<rparr>"

definition ex_partly_restored :: "(unit, nat, int, nat, nat) BaselineModel" where
  "ex_partly_restored =
     ex_fresh_model\<lparr> params := Some (fmap_of_list
        [(''net/construct_processor/linear'', fmap_of_list [(''w'', 2)]),
         (''net/enc_linear'', fmap_of_list [(''w'', 10)])]),
       opt_state := Some 3 \<rparr>"

section \<open>Facts about the parameter mappings\<close>

lemma fmdom_empty_lookup: "fmdom b = {||} \<Longrightarrow> fmlookup b n = None"
  by (metis fmdom_notD fempty_iff)


lemma plookup_nonempty_modules:
  "plookup (nonempty_modules s) m n = plookup s m n"
  by (auto simp: plookup_def nonempty_modules_def bundle_of_def fmdom_empty_lookup
      split: option.splits)

lemma plookup_hk_filter:
  "plookup (hk_filter P s) m n =
     (case plookup s m n of None \<Rightarrow> None | Some v \<Rightarrow> if P m n v then Some v else None)"
  unfolding hk_filter_def plookup_nonempty_modules
  by (auto simp: plookup_def split: option.splits)

lemma plookup_hk_merge:
  "plookup (hk_merge a b) m n =
     (case plookup b m n of None \<Rightarrow> plookup a m n | Some v \<Rightarrow> Some v)"
  unfolding hk_merge_def plookup_nonempty_modules
  by (auto simp: plookup_def bundle_of_def fmdomI split: option.splits)




section \<open>The optimizer step with a frozen processor\<close>

lemma plookup_tree_add:
  "plookup (tree_add p u) m n =
     (case plookup p m n of None \<Rightarrow> None
      | Some v \<Rightarrow> (case plookup u m n of None \<Rightarrow> Some v | Some d \<Rightarrow> Some (v + d)))"
  by (auto simp: plookup_def tree_add_def bundle_of_def split: option.splits)

text \<open>
  What \<^verbatim>\<open>_update_params\<close> does when \<^verbatim>\<open>freeze_processor\<close> is set: the parameters
  outside the processor modules are returned as they came, and every processor parameter
  has its update added.
\<close>

lemma update_params_freeze_frame:
  assumes "freeze_processor self"
    and "update_params opt_update self params_in grads opt_state_in = Inr (new_params, opt_state')"
  shows "\<not> is_processor m \<Longrightarrow> plookup new_params m n = plookup params_in m n"
    and "is_processor m \<Longrightarrow> plookup new_params m n =
           (case plookup params_in m n of None \<Rightarrow> None
            | Some v \<Rightarrow> (case plookup (fst (opt_update grads opt_state_in)) m n of
                          None \<Rightarrow> Some v | Some d \<Rightarrow> Some (v + d)))"
  using assms
  by (auto simp: update_params_def apply_updates_def plookup_hk_merge plookup_tree_add
      filter_processor_def plookup_hk_filter split: prod.splits if_splits option.splits)

text \<open>
  Claim C1 says that with \<^verbatim>\<open>freeze_processor\<close> set the processor parameters come
  back unchanged and the others receive the updates. On the example model, whose flag is
  set, an update of 5 for the processor weight 1 and of 7 for the encoder weight 10
  returns the processor weight 6 and the encoder weight 10: \<^verbatim>\<open>_filter_processor\<close>
  selects the processor modules, so these are the ones that are updated.
\<close>

theorem update_params_freeze_changes_processor:
  "freeze_processor ex_model \<and>
   update_params (\<lambda>grads s. (grads, Suc s)) ex_model ex_params ex_grads 0 =
     Inr (fmap_of_list
            [(''net/construct_processor/linear'', fmap_of_list [(''w'', 6)]),
             (''net/enc_linear'', fmap_of_list [(''w'', 10)])], 1) \<and>
   filter_processor ex_params =
     fmap_of_list [(''net/construct_processor/linear'', fmap_of_list [(''w'', 1)])]"
  by code_simp

section \<open>The loss is the sum of the enabled terms\<close>

text \<open>The loops add the terms to the running total from left to right.\<close>

lemma accumulate_losses_foldl:
  "accumulate_losses f preds total_loss xs = Inr r \<Longrightarrow>
   r = foldl (+) total_loss (map (\<lambda>truth. f truth (the (fmlookup preds (name truth)))) xs)"
proof (induction xs arbitrary: total_loss)
  case Nil
  then show ?case by simp
next
  case (Cons truth rest)
  from Cons.prems obtain pred where
    p: "fmlookup preds (name truth) = Some pred" and
    r: "accumulate_losses f preds (total_loss + f truth pred) rest = Inr r"
    by (auto split: option.splits)
  from Cons.IH [OF r] p show ?case by simp
qed

lemma lookup_each_map:
  "lookup_each k hint_preds = Inr preds \<Longrightarrow> preds = map (\<lambda>x. the (fmlookup x k)) hint_preds"
  by (induction hint_preds arbitrary: preds) (auto split: option.splits sum.splits)

lemma accumulate_hint_losses_foldl:
  "accumulate_hint_losses f hint_preds total_loss xs = Inr r \<Longrightarrow>
   r = foldl (+) total_loss
         (map (\<lambda>truth. f truth (map (\<lambda>x. the (fmlookup x (name truth))) hint_preds)) xs)"
proof (induction xs arbitrary: total_loss)
  case Nil
  then show ?case by simp
next
  case (Cons truth rest)
  from Cons.prems obtain preds where
    p: "lookup_each (name truth) hint_preds = Inr preds" and
    r: "accumulate_hint_losses f hint_preds (total_loss + f truth preds) rest = Inr r"
    by (auto split: sum.splits)
  from Cons.IH [OF r] lookup_each_map [OF p] show ?case by simp
qed

lemma update_returns_loss:
  "update net_fn_apply L grad_of opt_update self rng_key params_in opt_state_in feedback =
     Inr (new_params, opt_state', l) \<Longrightarrow>
   loss net_fn_apply L self params_in rng_key feedback = Inr l"
  by (auto simp: update_def value_and_grad_def split: sum.splits prod.splits)

text \<open>
  Claim C2. The loss that \<^verbatim>\<open>update\<close> returns is the value of its inner function
  \<^verbatim>\<open>loss\<close>. Whenever that function returns, its value is the sum, taken from 0 and
  from left to right, of the output losses of all outputs of the feedback, then the diff
  loss if \<^verbatim>\<open>decode_diffs\<close> is set and no term otherwise, then the hint losses of all
  hints if \<^verbatim>\<open>decode_hints\<close> is set and no term otherwise. With \<^verbatim>\<open>decode_hints\<close>
  unset the loss is the same whatever the hint loss function is. Nothing is assumed of
  the addition and of the 0 of the loss values, so this holds for floating-point numbers.
\<close>

theorem loss_sums_enabled_terms:
  fixes L :: "('a, 'l::{zero,plus}) losses"
  shows
  "(loss net_fn_apply L self params_in rng_key feedback = Inr l \<longrightarrow>
      (\<exists>output_preds hint_preds diff_logits gt_diffs n.
         net_fn_apply params_in rng_key (features feedback) False =
           Inr (output_preds, hint_preds, diff_logits, gt_diffs) \<and>
         nb_nodes feedback False = Inr n \<and>
         l = foldl (+) 0
               (enabled_loss_terms L self output_preds hint_preds diff_logits gt_diffs n
                  feedback))) \<and>
   (\<not> decode_hints self \<longrightarrow>
      loss net_fn_apply (L\<lparr>hint_loss := other_hint_loss\<rparr>) self params_in rng_key feedback =
      loss net_fn_apply L self params_in rng_key feedback) \<and>
   (update net_fn_apply L grad_of opt_update self rng_key params_in opt_state_in feedback =
      Inr (new_params, opt_state', returned_loss) \<longrightarrow>
      loss net_fn_apply L self params_in rng_key feedback = Inr returned_loss)"
proof (intro conjI impI)
  assume ok: "loss net_fn_apply L self params_in rng_key feedback = Inr l"
  then obtain output_preds hint_preds diff_logits gt_diffs where
    net: "net_fn_apply params_in rng_key (features feedback) False =
            Inr (output_preds, hint_preds, diff_logits, gt_diffs)"
    by (auto simp: loss_def split: sum.splits)
  with ok obtain n where n: "nb_nodes feedback False = Inr n"
    by (auto simp: loss_def split: sum.splits)
  with ok net obtain total1 where
    t1: "accumulate_losses (\<lambda>truth pred. output_loss L truth pred n) output_preds 0
           (outputs feedback) = Inr total1"
    by (auto simp: loss_def split: sum.splits)
  have s1: "total1 = foldl (+) 0 (output_loss_terms L output_preds n feedback)"
    using accumulate_losses_foldl [OF t1] by (simp add: output_loss_terms_def)
  define total2 where "total2 =
    (if decode_diffs self
     then total1 + diff_loss L diff_logits gt_diffs (lengths (features feedback)) else total1)"
  have s2: "total2 = foldl (+) 0
      (output_loss_terms L output_preds n feedback @
       (if decode_diffs self
        then [diff_loss L diff_logits gt_diffs (lengths (features feedback))] else []))"
    by (simp add: total2_def s1)
  have s3: "l = foldl (+) total2
      (if decode_hints self
       then hint_loss_terms L (decode_diffs self) hint_preds gt_diffs n feedback else [])"
  proof (cases "decode_hints self")
    case True
    with ok net n t1 have "accumulate_hint_losses
        (\<lambda>truth preds. hint_loss L truth preds gt_diffs (lengths (features feedback)) n
            (decode_diffs self))
        hint_preds total2 (hints (features feedback)) = Inr l"
      by (simp add: loss_def total2_def)
    from accumulate_hint_losses_foldl [OF this] True show ?thesis
      by (simp add: hint_loss_terms_def)
  next
    case False
    with ok net n t1 show ?thesis by (simp add: loss_def total2_def)
  qed
  have "l = foldl (+) 0
      (enabled_loss_terms L self output_preds hint_preds diff_logits gt_diffs n feedback)"
    unfolding enabled_loss_terms_def s3 s2 by simp
  with net n show "\<exists>output_preds hint_preds diff_logits gt_diffs n.
         net_fn_apply params_in rng_key (features feedback) False =
           Inr (output_preds, hint_preds, diff_logits, gt_diffs) \<and>
         nb_nodes feedback False = Inr n \<and>
         l = foldl (+) 0
               (enabled_loss_terms L self output_preds hint_preds diff_logits gt_diffs n
                  feedback)"
    by blast
next
  assume "\<not> decode_hints self"
  then show "loss net_fn_apply (L\<lparr>hint_loss := other_hint_loss\<rparr>) self params_in rng_key feedback =
      loss net_fn_apply L self params_in rng_key feedback"
    by (simp add: loss_def Let_def split: sum.splits prod.splits)
next
  assume "update net_fn_apply L grad_of opt_update self rng_key params_in opt_state_in feedback =
      Inr (new_params, opt_state', returned_loss)"
  then show "loss net_fn_apply L self params_in rng_key feedback = Inr returned_loss"
    by (rule update_returns_loss)
qed

theorem loss_sums_enabled_terms_witness:
  "update ex_net ex_losses (\<lambda>f p. ex_grads) (\<lambda>g s. (g, Suc s)) ex_model 0 ex_params 0
     ex_feedback =
     Inr (fmap_of_list
            [(''net/construct_processor/linear'', fmap_of_list [(''w'', 6)]),
             (''net/enc_linear'', fmap_of_list [(''w'', 10)])], 1, 12) \<and>
   loss ex_net ex_losses ex_model ex_params 0 ex_feedback = Inr 12 \<and>
   loss ex_net2 ex_losses_rounded ex_model ex_params 0 ex_feedback2 = Inr (F 20) \<and>
   enabled_loss_terms ex_losses_rounded ex_model (fmap_of_list [(''pred'', 1), (''key'', 2)])
     [fmap_of_list [(''pred_h'', 1), (''key_h'', 2)]] 0 0 7 ex_feedback2 =
     [F 9, F 9, F 3, F 3, F 3] \<and>
   F 20 = foldl (+) 0 [F 9, F 9, F 3, F 3, F 3] \<and>
   foldr (+) [F 9, F 9, F 3, F 3, F 3] 0 = F 30 \<and>
   \<not> decode_hints (ex_model\<lparr>decode_hints := False\<rparr>) \<and>
   loss ex_net2
     (ex_losses_rounded\<lparr>hint_loss := (\<lambda>truth preds gt_diffs lens n with_diffs. F 100)\<rparr>)
     (ex_model\<lparr>decode_hints := False\<rparr>) ex_params 0 ex_feedback2 = Inr (F 20) \<and>
   loss ex_net2 ex_losses_rounded (ex_model\<lparr>decode_hints := False\<rparr>) ex_params 0 ex_feedback2 =
     Inr (F 20)"
proof -
  have u: "update ex_net ex_losses (\<lambda>f p. ex_grads) (\<lambda>g s. (g, Suc s)) ex_model 0 ex_params 0
     ex_feedback =
     Inr (fmap_of_list
            [(''net/construct_processor/linear'', fmap_of_list [(''w'', 6)]),
             (''net/enc_linear'', fmap_of_list [(''w'', 10)])], 1, 12)"
    by code_simp
  from loss_sums_enabled_terms [of ex_net ex_losses ex_model ex_params 0 ex_feedback 12 _
      "\<lambda>f p. ex_grads" "\<lambda>g s. (g, Suc s)" 0] u
  have h1: "loss ex_net ex_losses ex_model ex_params 0 ex_feedback = Inr 12" by blast
  have h2: "loss ex_net2 ex_losses_rounded ex_model ex_params 0 ex_feedback2 = Inr (F 20)"
    by code_simp
  have n1: "ex_net2 ex_params 0 (features ex_feedback2) False =
      Inr (fmap_of_list [(''pred'', 1), (''key'', 2)],
           [fmap_of_list [(''pred_h'', 1), (''key_h'', 2)]], 0, 0)"
    by (simp add: ex_net2_def)
  have n2: "nb_nodes ex_feedback2 False = Inr 7" by code_simp
  have e: "enabled_loss_terms ex_losses_rounded ex_model
      (fmap_of_list [(''pred'', 1), (''key'', 2)])
      [fmap_of_list [(''pred_h'', 1), (''key_h'', 2)]] 0 0 7 ex_feedback2 =
      [F 9, F 9, F 3, F 3, F 3]"
    by code_simp
  from loss_sums_enabled_terms [of ex_net2 ex_losses_rounded ex_model ex_params 0 ex_feedback2
      "F 20"] h2 n1 n2 e
  have a: "F 20 = foldl (+) 0 [F 9, F 9, F 3, F 3, F 3]" by simp
  have r: "foldr (+) [F 9, F 9, F 3, F 3, F 3] 0 = F 30" by code_simp
  have h3: "\<not> decode_hints (ex_model\<lparr>decode_hints := False\<rparr>)" by simp
  have v: "loss ex_net2 ex_losses_rounded (ex_model\<lparr>decode_hints := False\<rparr>) ex_params 0
      ex_feedback2 = Inr (F 20)"
    by code_simp
  from loss_sums_enabled_terms [of ex_net2 ex_losses_rounded "ex_model\<lparr>decode_hints := False\<rparr>"
      ex_params 0 ex_feedback2 _ "\<lambda>truth preds gt_diffs lens n with_diffs. F 100"] h3 v
  have b: "loss ex_net2
     (ex_losses_rounded\<lparr>hint_loss := (\<lambda>truth preds gt_diffs lens n with_diffs. F 100)\<rparr>)
     (ex_model\<lparr>decode_hints := False\<rparr>) ex_params 0 ex_feedback2 = Inr (F 20)"
    by simp
  from u h1 h2 e a r h3 b v show ?thesis by simp
qed

section \<open>The chunked update threads the message-passing state\<close>




section \<open>Node-count inference returns the nodes axis of the first node or edge input\<close>

lemma nb_nodes_loop_find_Some:
  "find node_or_edge xs = Some inp \<Longrightarrow>
   nb_nodes_loop xs is_chunked = tuple_index (shape (data inp)) (int (nodes_axis is_chunked))"
  by (induction xs) (auto simp: nodes_axis_def)

lemma nb_nodes_loop_find_None:
  "find node_or_edge xs = None \<Longrightarrow> nb_nodes_loop xs is_chunked = Inl AssertionError"
  by (induction xs) (auto split: if_splits)

lemma nb_nodes_loop_filter:
  "nb_nodes_loop (filter node_or_edge xs) is_chunked = nb_nodes_loop xs is_chunked"
  by (induction xs) auto

lemma tuple_index_in_range:
  "k < length xs \<Longrightarrow> tuple_index xs (int k) = Inr (xs ! k)"
  by (simp add: tuple_index_def)

text \<open>
  Claim C4. When the inputs of a feedback hold a field located at a node or an edge,
  \<^verbatim>\<open>_nb_nodes\<close> returns \<^verbatim>\<open>shape[1]\<close> of the first such field for full
  trajectories and \<^verbatim>\<open>shape[2]\<close> for chunked ones, which is the extent of the nodes axis
  whenever the array has that axis. The result depends on the inputs only through the
  sequence of their node and edge fields, so moving, adding or removing other fields
  does not change it. Without a node or edge field the assertion fails.
\<close>

theorem nb_nodes_first_node_or_edge_field:
  "(find node_or_edge (inputs (features feedback)) = Some inp \<longrightarrow>
      nb_nodes feedback is_chunked =
        tuple_index (shape (data inp)) (int (nodes_axis is_chunked)) \<and>
      (nodes_axis is_chunked < length (shape (data inp)) \<longrightarrow>
         nb_nodes feedback is_chunked = Inr (shape (data inp) ! nodes_axis is_chunked))) \<and>
   (filter node_or_edge (inputs (features feedback)) =
      filter node_or_edge (inputs (features feedback')) \<longrightarrow>
      nb_nodes feedback is_chunked = nb_nodes feedback' is_chunked) \<and>
   (find node_or_edge (inputs (features feedback)) = None \<longrightarrow>
      nb_nodes feedback is_chunked = Inl AssertionError)"
proof (intro conjI impI)
  assume f: "find node_or_edge (inputs (features feedback)) = Some inp"
  then show eq: "nb_nodes feedback is_chunked =
      tuple_index (shape (data inp)) (int (nodes_axis is_chunked))"
    by (simp add: nb_nodes_def nb_nodes_loop_find_Some)
  assume "nodes_axis is_chunked < length (shape (data inp))"
  with eq show "nb_nodes feedback is_chunked = Inr (shape (data inp) ! nodes_axis is_chunked)"
    by (simp add: tuple_index_in_range)
next
  assume "filter node_or_edge (inputs (features feedback)) =
      filter node_or_edge (inputs (features feedback'))"
  then have "nb_nodes_loop (filter node_or_edge (inputs (features feedback))) is_chunked =
      nb_nodes_loop (filter node_or_edge (inputs (features feedback'))) is_chunked"
    by simp
  then show "nb_nodes feedback is_chunked = nb_nodes feedback' is_chunked"
    by (simp add: nb_nodes_def nb_nodes_loop_filter)
next
  assume "find node_or_edge (inputs (features feedback)) = None"
  then show "nb_nodes feedback is_chunked = Inl AssertionError"
    by (simp add: nb_nodes_def nb_nodes_loop_find_None)
qed

theorem nb_nodes_first_node_or_edge_field_witness:
  "find node_or_edge (inputs (features ex_feedback)) = Some ex_pos \<and>
   nb_nodes ex_feedback False = Inr 7 \<and>
   nb_nodes ex_feedback_reordered False = Inr 7 \<and>
   find node_or_edge (inputs (features ex_feedback_chunked)) = Some ex_pos_chunked \<and>
   nb_nodes ex_feedback_chunked True = Inr 7 \<and>
   find node_or_edge (inputs (features ex_feedback_graph_only)) = None \<and>
   nb_nodes ex_feedback_graph_only False = Inl AssertionError"
proof -
  have h1: "find node_or_edge (inputs (features ex_feedback)) = Some ex_pos" by code_simp
  have h2: "nodes_axis False < length (shape (data ex_pos))" by code_simp
  have h3: "filter node_or_edge (inputs (features ex_feedback)) =
            filter node_or_edge (inputs (features ex_feedback_reordered))" by code_simp
  have h4: "find node_or_edge (inputs (features ex_feedback_chunked)) = Some ex_pos_chunked"
    by code_simp
  have h5: "nodes_axis True < length (shape (data ex_pos_chunked))" by code_simp
  have h6: "find node_or_edge (inputs (features ex_feedback_graph_only)) = None" by code_simp
  have v1: "shape (data ex_pos) ! nodes_axis False = 7" by code_simp
  have v2: "shape (data ex_pos_chunked) ! nodes_axis True = 7" by code_simp
  note t1 = nb_nodes_first_node_or_edge_field [of ex_feedback ex_pos False ex_feedback_reordered]
  from t1 h1 h2 have "nb_nodes ex_feedback False = Inr (shape (data ex_pos) ! nodes_axis False)"
    by blast
  with v1 have a1: "nb_nodes ex_feedback False = Inr 7" by simp
  from t1 h3 have "nb_nodes ex_feedback False = nb_nodes ex_feedback_reordered False" by blast
  with a1 have a2: "nb_nodes ex_feedback_reordered False = Inr 7" by simp
  from nb_nodes_first_node_or_edge_field [of ex_feedback_chunked ex_pos_chunked True] h4 h5
  have "nb_nodes ex_feedback_chunked True =
          Inr (shape (data ex_pos_chunked) ! nodes_axis True)"
    by blast
  with v2 have b: "nb_nodes ex_feedback_chunked True = Inr 7" by simp
  from nb_nodes_first_node_or_edge_field [of ex_feedback_graph_only ex_pos False] h6
  have c: "nb_nodes ex_feedback_graph_only False = Inl AssertionError" by blast
  from h1 h4 h6 a1 a2 b c show ?thesis by simp
qed

section \<open>The chunked model offers no inference and no verbose loss\<close>

text \<open>
  Claim C5. On the chunked model \<^verbatim>\<open>predict\<close> raises \<^verbatim>\<open>NotImplementedError\<close> for
  every model state and every argument, and so does \<^verbatim>\<open>verbose_loss\<close>.
\<close>

theorem chunked_predict_and_verbose_loss_fail:
  "predict_chunked self rng_key feats = Inl NotImplementedError \<and>
   verbose_loss_chunked self args kwargs = Inl NotImplementedError"
  by (simp add: predict_chunked_def verbose_loss_chunked_def)

section \<open>Construction\<close>

lemma tuple_index_error: "tuple_index xs i = Inl e \<Longrightarrow> e = IndexError"
  by (auto simp: tuple_index_def split: if_splits)

lemma fill_nb_dims_error: "fill_nb_dims dims xs = Inl e \<Longrightarrow> e = IndexError"
  by (induction xs arbitrary: dims) (auto split: sum.splits dest: tuple_index_error)

text \<open>
  Claim C6. The constructor raises \<^verbatim>\<open>ValueError\<close>, its configuration error, exactly
  when \<^verbatim>\<open>encode_hints\<close> is true and \<^verbatim>\<open>decode_hints\<close> is false; with any other
  combination of the two flags it either succeeds or fails with another error.
\<close>

theorem init_rejects_encode_without_decode:
  "(BaselineModel_init is_chunked_class spec_arg nb_heads hidden_dim kind encode_hints
      decode_hints_arg decode_diffs_arg use_lstm learning_rate_arg checkpoint_path_arg
      freeze_processor_arg dummy_trajectory dropout_prob name_arg = Inl ValueError) =
   (encode_hints \<and> \<not> decode_hints_arg)"
  by (auto simp: BaselineModel_init_def split: option.splits sum.splits
      dest: fill_nb_dims_error)

theorem init_rejects_encode_without_decode_witness:
  "BaselineModel_init False () 1 32 ''mpnn'' True False True False 5 ''/tmp/clrs3'' True
     (Some ex_feedback) 0 ''base_model'' =
     (Inl ValueError :: error + (unit, nat, int, nat, nat) BaselineModel) \<and>
   BaselineModel_init False () 1 32 ''mpnn'' True True True False 5 ''/tmp/clrs3'' True
     (Some ex_feedback) 0 ''base_model'' \<noteq>
     (Inl ValueError :: error + (unit, nat, int, nat, nat) BaselineModel)"
  using init_rejects_encode_without_decode [of False "()" 1 32 "''mpnn''" True False True False 5
      "''/tmp/clrs3''" True "Some ex_feedback" 0 "''base_model''"]
    init_rejects_encode_without_decode [of False "()" 1 32 "''mpnn''" True True True False 5
      "''/tmp/clrs3''" True "Some ex_feedback" 0 "''base_model''"]
  by simp

text \<open>
  Claim C10. Constructing either model with the dummy trajectory left at \<^verbatim>\<open>None\<close>
  fails whatever the other arguments are: with \<^verbatim>\<open>ValueError\<close> when the hint flags
  are rejected first, and otherwise with \<^verbatim>\<open>AttributeError\<close> at
  \<^verbatim>\<open>dummy_trajectory.features\<close>.
\<close>

theorem init_without_dummy_trajectory_fails:
  "BaselineModel_init is_chunked_class spec_arg nb_heads hidden_dim kind encode_hints
      decode_hints_arg decode_diffs_arg use_lstm learning_rate_arg checkpoint_path_arg
      freeze_processor_arg None dropout_prob name_arg =
   Inl (if encode_hints \<and> \<not> decode_hints_arg then ValueError else AttributeError)"
  by (simp add: BaselineModel_init_def)

section \<open>Checkpoints\<close>

lemma restore_model_InrD:
  assumes "restore_model fs self file_name only_load_processor = Inr self'"
  shows "\<exists>restored_state saved held.
           fmlookup (files fs) (path_join (checkpoint_path self) file_name) = Some restored_state \<and>
           ck_params restored_state = Some saved \<and> params self = Some held \<and>
           self' = self\<lparr> params := Some (hk_merge held
                                   (if only_load_processor then filter_processor saved else saved)),
                         opt_state := ck_opt_state restored_state \<rparr>"
  using assms
  by (auto simp: restore_model_def open_rb_def Let_def split: option.splits sum.splits if_splits)

text \<open>
  Claim C9. A call of \<^verbatim>\<open>restore_model\<close> that returns has read the checkpoint file
  and leaves the model with the optimizer state stored there, whether or not only the
  processor is loaded: the flag restricts the parameters, never the optimizer state.
\<close>

theorem restore_replaces_opt_state:
  "restore_model fs self file_name only_load_processor = Inr self' \<Longrightarrow>
   \<exists>restored_state.
     fmlookup (files fs) (path_join (checkpoint_path self) file_name) = Some restored_state \<and>
     opt_state self' = ck_opt_state restored_state"
  by (drule restore_model_InrD) auto

theorem restore_replaces_opt_state_witness:
  "restore_model ex_fs1 ex_model ''best.pkl'' True = Inr ex_partly_restored \<and>
   opt_state ex_model = Some 0 \<and>
   fmlookup (files ex_fs1) (path_join (checkpoint_path ex_model) ''best.pkl'') =
     Some \<lparr> ck_params = Some ex_saved_params, ck_opt_state = Some 3 \<rparr> \<and>
   opt_state ex_partly_restored = Some 3"
proof -
  have h: "restore_model ex_fs1 ex_model ''best.pkl'' True = Inr ex_partly_restored"
    by code_simp
  have f: "fmlookup (files ex_fs1) (path_join (checkpoint_path ex_model) ''best.pkl'') =
     Some \<lparr> ck_params = Some ex_saved_params, ck_opt_state = Some 3 \<rparr>"
    by code_simp
  have o: "opt_state ex_model = Some 0" by code_simp
  from restore_replaces_opt_state [OF h] f
  have "opt_state ex_partly_restored = Some 3" by auto
  with h f o show ?thesis by simp
qed

text \<open>
  Claim C8. After \<^verbatim>\<open>restore_model\<close> with \<^verbatim>\<open>only_load_processor=True\<close> every
  parameter of a module outside the processor is what it was before the call; a
  parameter of a processor module is the one of the checkpoint when the checkpoint has
  it, and the held one otherwise.
\<close>

theorem restore_processor_only_keeps_other_params:
  assumes "restore_model fs self file_name True = Inr self'"
  shows "\<exists>restored_state saved held new.
           fmlookup (files fs) (path_join (checkpoint_path self) file_name) = Some restored_state \<and>
           ck_params restored_state = Some saved \<and>
           params self = Some held \<and> params self' = Some new \<and>
           (\<forall>m n. \<not> is_processor m \<longrightarrow> plookup new m n = plookup held m n) \<and>
           (\<forall>m n. is_processor m \<longrightarrow>
              plookup new m n =
                (case plookup saved m n of None \<Rightarrow> plookup held m n | Some v \<Rightarrow> Some v))"
proof -
  from restore_model_InrD [OF assms] obtain restored_state saved held where
    f: "fmlookup (files fs) (path_join (checkpoint_path self) file_name) = Some restored_state"
    and s: "ck_params restored_state = Some saved" and h: "params self = Some held"
    and eq: "self' = self\<lparr> params := Some (hk_merge held (filter_processor saved)),
                          opt_state := ck_opt_state restored_state \<rparr>"
    by auto
  let ?new = "hk_merge held (filter_processor saved)"
  have "params self' = Some ?new" using eq by simp
  moreover have "\<forall>m n. \<not> is_processor m \<longrightarrow> plookup ?new m n = plookup held m n"
    by (simp add: plookup_hk_merge filter_processor_def plookup_hk_filter split: option.splits)
  moreover have "\<forall>m n. is_processor m \<longrightarrow>
      plookup ?new m n = (case plookup saved m n of None \<Rightarrow> plookup held m n | Some v \<Rightarrow> Some v)"
    by (simp add: plookup_hk_merge filter_processor_def plookup_hk_filter split: option.splits)
  ultimately show ?thesis using f s h by blast
qed

theorem restore_processor_only_keeps_other_params_witness:
  "restore_model ex_fs1 ex_model ''best.pkl'' True = Inr ex_partly_restored \<and>
   \<not> is_processor ''net/enc_linear'' \<and>
   plookup ex_params ''net/enc_linear'' ''w'' = Some 10 \<and>
   plookup ex_saved_params ''net/enc_linear'' ''w'' = Some 20 \<and>
   (\<exists>new. params ex_partly_restored = Some new \<and>
           plookup new ''net/enc_linear'' ''w'' = Some 10)"
proof -
  have h: "restore_model ex_fs1 ex_model ''best.pkl'' True = Inr ex_partly_restored"
    by code_simp
  have p: "\<not> is_processor ''net/enc_linear''" by code_simp
  have a: "params ex_model = Some ex_params" by code_simp
  have b: "plookup ex_params ''net/enc_linear'' ''w'' = Some 10" by code_simp
  have c: "plookup ex_saved_params ''net/enc_linear'' ''w'' = Some 20" by code_simp
  from restore_processor_only_keeps_other_params [OF h] a p b
  have "\<exists>new. params ex_partly_restored = Some new \<and>
           plookup new ''net/enc_linear'' ''w'' = Some 10"
    by auto
  with h p b c show ?thesis by simp
qed






end
